theory Spec2Isabelle
  imports Complex_Main
begin

section \<open>JavaScript numbers\<close>

text \<open>
  Every quantity of the hook (indices, durations, percentages) is a JavaScript number.
  A number is modelled as a finite value, one of the two infinities, or NaN, so that
  division by zero and the remainder by zero are branches of the model and not
  unspecified values of HOL.  Finite values are exact rationals: rounding of binary64
  is not modelled, and every concrete value that a theorem below states is an integer
  or a dyadic fraction that binary64 computes exactly.  The two zeros are identified,
  as \<open>===\<close>, \<open><\<close> and \<open>>=\<close> identify them; every zero divisor that the hook
  can produce (\<open>totalSlides - 1\<close>, \<open>speed * totalSlides\<close> with \<open>speed > 0\<close>) is the
  positive zero, which is the one modelled by \<open>js_div\<close>.
\<close>

datatype jsnum = Fin rat | PInf | NInf | NaN

fun js_neg :: "jsnum \<Rightarrow> jsnum" where
  "js_neg (Fin a) = Fin (- a)"
| "js_neg PInf = NInf"
| "js_neg NInf = PInf"
| "js_neg NaN = NaN"

fun js_add :: "jsnum \<Rightarrow> jsnum \<Rightarrow> jsnum" where
  "js_add NaN _ = NaN"
| "js_add _ NaN = NaN"
| "js_add (Fin a) (Fin b) = Fin (a + b)"
| "js_add (Fin a) y = y"
| "js_add x (Fin b) = x"
| "js_add x y = (if x = y then x else NaN)"

definition js_sub :: "jsnum \<Rightarrow> jsnum \<Rightarrow> jsnum" where
  "js_sub x y = js_add x (js_neg y)"

fun js_mul :: "jsnum \<Rightarrow> jsnum \<Rightarrow> jsnum" where
  "js_mul NaN _ = NaN"
| "js_mul _ NaN = NaN"
| "js_mul (Fin a) (Fin b) = Fin (a * b)"
| "js_mul (Fin a) y = (if a = 0 then NaN else if 0 < a then y else js_neg y)"
| "js_mul x (Fin b) = (if b = 0 then NaN else if 0 < b then x else js_neg x)"
| "js_mul x y = (if x = y then PInf else NInf)"

fun js_div :: "jsnum \<Rightarrow> jsnum \<Rightarrow> jsnum" where
  "js_div NaN _ = NaN"
| "js_div _ NaN = NaN"
| "js_div (Fin a) (Fin b) =
     (if b = 0 then (if a = 0 then NaN else if 0 < a then PInf else NInf)
      else Fin (a / b))"
| "js_div (Fin a) y = Fin 0"
| "js_div x (Fin b) = (if 0 \<le> b then x else js_neg x)"
| "js_div x y = NaN"

definition trunc_rat :: "rat \<Rightarrow> int" where
  "trunc_rat q = (if 0 \<le> q then \<lfloor>q\<rfloor> else \<lceil>q\<rceil>)"

text \<open>The operator \<open>%\<close>: the remainder of the truncating division; its sign is the
  sign of the dividend, and the remainder by zero is NaN.\<close>

fun js_rem :: "jsnum \<Rightarrow> jsnum \<Rightarrow> jsnum" where
  "js_rem NaN _ = NaN"
| "js_rem _ NaN = NaN"
| "js_rem (Fin a) (Fin b) =
     (if b = 0 then NaN else Fin (a - b * of_int (trunc_rat (a / b))))"
| "js_rem (Fin a) y = Fin a"
| "js_rem x y = NaN"

fun js_lt :: "jsnum \<Rightarrow> jsnum \<Rightarrow> bool" where
  "js_lt NaN _ = False"
| "js_lt _ NaN = False"
| "js_lt (Fin a) (Fin b) = (a < b)"
| "js_lt x NInf = False"
| "js_lt PInf y = False"
| "js_lt x y = True"

text \<open>Strict equality \<open>===\<close> on numbers: NaN is not equal to itself.\<close>

definition js_seq :: "jsnum \<Rightarrow> jsnum \<Rightarrow> bool" where
  "js_seq x y = (x \<noteq> NaN \<and> x = y)"

definition js_gt :: "jsnum \<Rightarrow> jsnum \<Rightarrow> bool" where
  "js_gt x y = js_lt y x"

definition js_le :: "jsnum \<Rightarrow> jsnum \<Rightarrow> bool" where
  "js_le x y = (js_lt x y \<or> js_seq x y)"

definition js_ge :: "jsnum \<Rightarrow> jsnum \<Rightarrow> bool" where
  "js_ge x y = js_le y x"

definition Math_min :: "jsnum \<Rightarrow> jsnum \<Rightarrow> jsnum" where
  "Math_min x y = (if x = NaN \<or> y = NaN then NaN else if js_lt y x then y else x)"

definition Math_max :: "jsnum \<Rightarrow> jsnum \<Rightarrow> jsnum" where
  "Math_max x y = (if x = NaN \<or> y = NaN then NaN else if js_lt x y then y else x)"

section \<open>The hook: configuration and state\<close>

text \<open>The options of \<open>useSlider\<close>; they are fixed for the life of a slider.\<close>

record config =
  autoScroll :: bool
  loop :: bool
  speed :: jsnum
  totalSlides :: jsnum

text \<open>The object kept by \<open>useState\<close> under the name \<open>indexState\<close>.\<close>

record index_state =
  currentSlide :: jsnum
  prevIndex :: jsnum
  nextIndex :: jsnum

datatype direction = Next | Prev

text \<open>
  The state cells and refs of the hook.  An interval ref is \<open>None\<close> when no interval
  is running, and \<open>Some t\<close> when one is, \<open>t\<close> being the accumulator captured by its
  callback (\<open>progressTime\<close>, \<open>loopTime\<close>); \<open>clearInterval\<close> writes \<open>None\<close>.
\<close>

record hook_state =
  indexState :: index_state
  currentSlideRef :: jsnum
  slideTimeProgress :: jsnum
  totalProgress :: jsnum
  loopProgress :: jsnum
  bulletProgress :: jsnum
  direction :: direction
  isVisible :: bool
  slideProgressIntervalRef :: "jsnum option"
  loopProgressIntervalRef :: "jsnum option"
  isAnimating :: bool
  isInitialized :: bool

text \<open>The values of the first render, before any effect has run.\<close>

definition initial :: "config \<Rightarrow> hook_state" where
  "initial c =
     \<lparr> indexState = \<lparr> currentSlide = Fin 0,
                      prevIndex = js_sub (totalSlides c) (Fin 1),
                      nextIndex = Fin 1 \<rparr>,
       currentSlideRef = Fin 0,
       slideTimeProgress = Fin 0,
       totalProgress = Fin 0,
       loopProgress = Fin 0,
       bulletProgress = Fin 0,
       direction = Next,
       isVisible = False,
       slideProgressIntervalRef = None,
       loopProgressIntervalRef = None,
       isAnimating = False,
       isInitialized = False \<rparr>"

section \<open>The callbacks\<close>

definition calculateBulletProgress :: "jsnum \<Rightarrow> jsnum \<Rightarrow> jsnum" where
  "calculateBulletProgress totalSlidesArg activeIndex =
     (let a1 = (if js_lt activeIndex (Fin 0) then Fin 0 else activeIndex);
          a2 = (if js_ge a1 totalSlidesArg then js_sub totalSlidesArg (Fin 1) else a1)
      in js_mul (js_div a2 (js_sub totalSlidesArg (Fin 1))) (Fin 100))"

text \<open>
  The two index expressions of \<open>updateIndexes\<close>, each a function of the new current
  slide, of \<open>loop\<close> and of \<open>totalSlides\<close>: the previous index it computes when no
  previous slide is passed, and the next index.
\<close>

definition defaultPrevIndex :: "config \<Rightarrow> jsnum \<Rightarrow> jsnum" where
  "defaultPrevIndex c newCurrentSlide =
     (if js_seq newCurrentSlide (Fin 0)
      then (if loop c then js_sub (totalSlides c) (Fin 1) else Fin 0)
      else js_sub newCurrentSlide (Fin 1))"

definition computedNextIndex :: "config \<Rightarrow> jsnum \<Rightarrow> jsnum" where
  "computedNextIndex c newCurrentSlide =
     (if js_seq newCurrentSlide (js_sub (totalSlides c) (Fin 1))
      then (if loop c then Fin 0 else js_sub (totalSlides c) (Fin 1))
      else js_add newCurrentSlide (Fin 1))"

text \<open>The second argument is \<open>None\<close> for the default \<open>null\<close>.\<close>

definition updateIndexes :: "config \<Rightarrow> jsnum \<Rightarrow> jsnum option \<Rightarrow> hook_state \<Rightarrow> hook_state" where
  "updateIndexes c newCurrentSlide prevSlideArg s =
     (let p = (case prevSlideArg of
                 Some v \<Rightarrow> v
               | None \<Rightarrow> defaultPrevIndex c newCurrentSlide);
          n = computedNextIndex c newCurrentSlide
      in s\<lparr> indexState := \<lparr> currentSlide = newCurrentSlide, prevIndex = p, nextIndex = n \<rparr>,
            currentSlideRef := newCurrentSlide \<rparr>)"

definition startSlideProgress :: "config \<Rightarrow> hook_state \<Rightarrow> hook_state" where
  "startSlideProgress c s =
     (if \<not> autoScroll c \<or> js_le (speed c) (Fin 0) then s
      else s\<lparr> slideProgressIntervalRef := Some (Fin 0) \<rparr>)"

definition nextSlide :: "config \<Rightarrow> hook_state \<Rightarrow> hook_state" where
  "nextSlide c s =
     (if isAnimating s \<or> \<not> isInitialized s then s
      else
        let s1 = s\<lparr> isAnimating := True, direction := Next \<rparr>;
            newSlide =
              (if loop c
               then js_rem (js_add (currentSlideRef s1) (Fin 1)) (totalSlides c)
               else Math_min (js_add (currentSlideRef s1) (Fin 1))
                             (js_sub (totalSlides c) (Fin 1)))
        in if \<not> loop c \<and> js_seq newSlide (currentSlideRef s1)
           then s1\<lparr> slideProgressIntervalRef := None,
                    slideTimeProgress := Fin 100,
                    isAnimating := False \<rparr>
           else (startSlideProgress c
                   (updateIndexes c newSlide (Some (currentSlideRef s1)) s1))
                \<lparr> isAnimating := False \<rparr>)"

definition prevSlide :: "config \<Rightarrow> hook_state \<Rightarrow> hook_state" where
  "prevSlide c s =
     (let s1 = s\<lparr> direction := Prev \<rparr>;
          newSlide =
            (if loop c
             then js_rem (js_add (js_sub (currentSlideRef s1) (Fin 1)) (totalSlides c))
                         (totalSlides c)
             else Math_max (js_sub (currentSlideRef s1) (Fin 1)) (Fin 0))
      in startSlideProgress c
           (updateIndexes c newSlide (Some (currentSlideRef s1)) s1))"

definition handleLoopProgress :: "jsnum \<Rightarrow> hook_state \<Rightarrow> hook_state" where
  "handleLoopProgress initialProgress s =
     s\<lparr> loopProgressIntervalRef := Some initialProgress \<rparr>"

text \<open>The value of \<open>newSlide\<close> in \<open>goToSlide\<close>: the index wrapped by \<open>%\<close> when
  looping, clamped otherwise.\<close>

definition goToTarget :: "config \<Rightarrow> jsnum \<Rightarrow> jsnum" where
  "goToTarget c index =
     (if loop c then js_rem index (totalSlides c)
      else Math_min (Math_max index (Fin 0)) (js_sub (totalSlides c) (Fin 1)))"

definition goToSlide :: "config \<Rightarrow> jsnum \<Rightarrow> hook_state \<Rightarrow> hook_state" where
  "goToSlide c index s =
     (if js_seq index (currentSlideRef s) then s
      else
        let s1 = s\<lparr> slideProgressIntervalRef := None, loopProgressIntervalRef := None \<rparr>;
            newSlide = goToTarget c index;
            s2 = s1\<lparr> direction :=
                       (if js_gt newSlide (currentSlideRef s1) then Next else Prev) \<rparr>;
            s3 = updateIndexes c newSlide (Some (currentSlideRef s2)) s2
        in if autoScroll c \<and> js_gt (speed c) (Fin 0)
           then startSlideProgress c (handleLoopProgress (js_mul newSlide (speed c)) s3)
           else s3)"

section \<open>The interval callbacks\<close>

text \<open>One firing of the interval set by \<open>startSlideProgress\<close>; nothing fires when
  the interval is cleared.  The two writes of \<open>slideTimeProgress\<close> in one firing leave
  the second.\<close>

definition slideProgressTick :: "config \<Rightarrow> hook_state \<Rightarrow> hook_state" where
  "slideProgressTick c s =
     (case slideProgressIntervalRef s of
        None \<Rightarrow> s
      | Some progressTime \<Rightarrow>
          let t = js_add progressTime (Fin 100);
              slideProgress = js_mul (js_div t (speed c)) (Fin 100);
              s1 = s\<lparr> slideProgressIntervalRef := Some t,
                      slideTimeProgress := slideProgress \<rparr>
          in if js_ge slideProgress (Fin 100)
             then
               let s2 = s1\<lparr> slideProgressIntervalRef := None,
                            slideTimeProgress := Fin 0 \<rparr>
               in if loop c \<or> js_lt (currentSlideRef s2) (js_sub (totalSlides c) (Fin 1))
                  then nextSlide c s2
                  else s2
             else s1)"

text \<open>One firing of the interval set by \<open>handleLoopProgress\<close>.\<close>

definition loopProgressTick :: "config \<Rightarrow> hook_state \<Rightarrow> hook_state" where
  "loopProgressTick c s =
     (case loopProgressIntervalRef s of
        None \<Rightarrow> s
      | Some loopTime \<Rightarrow>
          let t = js_add loopTime (Fin 100);
              loopDuration = js_mul (speed c) (totalSlides c);
              progress = js_mul (js_div t loopDuration) (Fin 100)
          in s\<lparr> loopProgress := progress,
                loopProgressIntervalRef :=
                  Some (if js_ge progress (Fin 100) then Fin 0 else t) \<rparr>)"

section \<open>The effects\<close>

text \<open>The effect on \<open>[isVisible, goToSlide]\<close>.\<close>

definition visibilityEffect :: "config \<Rightarrow> hook_state \<Rightarrow> hook_state" where
  "visibilityEffect c s =
     (if \<not> isVisible s
      then s\<lparr> slideProgressIntervalRef := None,
              loopProgressIntervalRef := None,
              slideTimeProgress := Fin 0 \<rparr>
      else goToSlide c (currentSlideRef s) s)"

text \<open>The effect on \<open>[autoScroll, startSlideProgress, handleLoopProgress, speed,
  isVisible]\<close>: its body, and the function it returns for its cleanup.\<close>

definition autoScrollEffect :: "config \<Rightarrow> hook_state \<Rightarrow> hook_state" where
  "autoScrollEffect c s =
     (if isInitialized s
      then
        (if autoScroll c \<and> isVisible s \<and> js_gt (speed c) (Fin 0)
         then handleLoopProgress (Fin 0) (startSlideProgress c s)
         else s\<lparr> slideTimeProgress := Fin 0,
                 slideProgressIntervalRef := None,
                 loopProgressIntervalRef := None \<rparr>)
      else s\<lparr> isInitialized := True \<rparr>)"

definition autoScrollCleanup :: "hook_state \<Rightarrow> hook_state" where
  "autoScrollCleanup s =
     s\<lparr> slideProgressIntervalRef := None, loopProgressIntervalRef := None \<rparr>"

text \<open>The effect on \<open>[indexState.currentSlide, totalSlides]\<close>.  It writes a function
  of the current slide and of \<open>totalSlides\<close> only, so running it after every event
  gives the state that running it after every change of the current slide gives.\<close>

definition progressEffect :: "config \<Rightarrow> hook_state \<Rightarrow> hook_state" where
  "progressEffect c s =
     s\<lparr> totalProgress :=
          js_mul (js_div (js_add (currentSlide (indexState s)) (Fin 1)) (totalSlides c))
                 (Fin 100),
        bulletProgress :=
          calculateBulletProgress (totalSlides c) (currentSlide (indexState s)) \<rparr>"

text \<open>The effects of the first commit, in the order of their declaration.  The
  observer of the first effect changes no state by itself.\<close>

definition mount :: "config \<Rightarrow> hook_state \<Rightarrow> hook_state" where
  "mount c s = progressEffect c (autoScrollEffect c (visibilityEffect c s))"

text \<open>
  The callback of the intersection observer, \<open>setIsVisible\<close>, and the commit that
  follows it.  The observer exists only when \<open>autoScroll\<close> is set; setting the value
  \<open>isVisible\<close> already has schedules no commit.  In the commit the cleanup of the
  auto-scroll effect runs first, then the bodies of the two effects that depend on
  \<open>isVisible\<close>, in the order of their declaration.
\<close>

definition setIsVisible :: "config \<Rightarrow> bool \<Rightarrow> hook_state \<Rightarrow> hook_state" where
  "setIsVisible c b s =
     (if \<not> autoScroll c \<or> isVisible s = b then s
      else autoScrollEffect c
             (visibilityEffect c (autoScrollCleanup (s\<lparr> isVisible := b \<rparr>))))"

text \<open>The cleanup at unmount.\<close>

definition unmount :: "hook_state \<Rightarrow> hook_state" where
  "unmount s = autoScrollCleanup s"

section \<open>Runs of the hook\<close>

datatype event =
    Mount
  | NextSlide
  | PrevSlide
  | GoToSlide int
  | Visibility bool
  | SlideTick
  | LoopTick

fun handle :: "config \<Rightarrow> event \<Rightarrow> hook_state \<Rightarrow> hook_state" where
  "handle c Mount s = mount c s"
| "handle c NextSlide s = progressEffect c (nextSlide c s)"
| "handle c PrevSlide s = progressEffect c (prevSlide c s)"
| "handle c (GoToSlide i) s = progressEffect c (goToSlide c (Fin (of_int i)) s)"
| "handle c (Visibility b) s = progressEffect c (setIsVisible c b s)"
| "handle c SlideTick s = progressEffect c (slideProgressTick c s)"
| "handle c LoopTick s = progressEffect c (loopProgressTick c s)"

fun run :: "config \<Rightarrow> event list \<Rightarrow> hook_state \<Rightarrow> hook_state" where
  "run c [] s = s"
| "run c (e # es) s = run c es (handle c e s)"

inductive reachable :: "config \<Rightarrow> hook_state \<Rightarrow> bool" for c :: config where
  reachable_initial: "reachable c (initial c)"
| reachable_handle: "reachable c s \<Longrightarrow> reachable c (handle c e s)"

text \<open>What holds between two events: no advance is in progress, and the ref of the
  current slide mirrors the state cell.\<close>

definition settled :: "hook_state \<Rightarrow> bool" where
  "settled s = (\<not> isAnimating s \<and> currentSlide (indexState s) = currentSlideRef s)"

section \<open>Concrete sliders\<close>

definition cfgLoop5 :: config where
  "cfgLoop5 = \<lparr> autoScroll = True, loop = True, speed = Fin 3000, totalSlides = Fin 5 \<rparr>"

definition cfgNoLoop5 :: config where
  "cfgNoLoop5 = \<lparr> autoScroll = True, loop = False, speed = Fin 3000, totalSlides = Fin 5 \<rparr>"

definition cfgSingle :: config where
  "cfgSingle = \<lparr> autoScroll = False, loop = True, speed = Fin 3000, totalSlides = Fin 1 \<rparr>"

definition cfgEmpty :: config where
  "cfgEmpty = \<lparr> autoScroll = False, loop = True, speed = Fin 3000, totalSlides = Fin 0 \<rparr>"

definition cfgDefault :: config where
  "cfgDefault = \<lparr> autoScroll = True, loop = True, speed = Fin 3000, totalSlides = Fin 0 \<rparr>"

definition cfgShort :: config where
  "cfgShort = \<lparr> autoScroll = True, loop = True, speed = Fin 320, totalSlides = Fin 2 \<rparr>"

text \<open>Concrete states: a looping slider of five slides, mounted and moved to slide 2
  while still hidden; the same slider shown, moved to slide 2 and hidden again; a
  non-looping slider of five slides, mounted and moved to its last slide; the slider
  of two slides shown, after two firings of its slide-progress interval and three of
  its loop-progress interval; the slider with the default \<open>totalSlides = 0\<close> shown
  until its first automatic advance, and hidden again.\<close>

definition atTwo :: hook_state where
  "atTwo = run cfgLoop5 [Mount, GoToSlide 2] (initial cfgLoop5)"

definition hiddenAtTwo :: hook_state where
  "hiddenAtTwo =
     run cfgLoop5 [Mount, Visibility True, GoToSlide 2, Visibility False] (initial cfgLoop5)"

definition atLast :: hook_state where
  "atLast = run cfgNoLoop5 [Mount, GoToSlide 4] (initial cfgNoLoop5)"

definition shownTicked :: hook_state where
  "shownTicked =
     run cfgShort
       [Mount, Visibility True, SlideTick, SlideTick, LoopTick, LoopTick, LoopTick]
       (initial cfgShort)"

definition hiddenAtNaN :: hook_state where
  "hiddenAtNaN =
     run cfgDefault (Mount # Visibility True # replicate 30 SlideTick @ [Visibility False])
       (initial cfgDefault)"

section \<open>Basic facts\<close>

lemmas callback_defs = updateIndexes_def startSlideProgress_def nextSlide_def prevSlide_def
  handleLoopProgress_def goToSlide_def slideProgressTick_def loopProgressTick_def
  visibilityEffect_def autoScrollEffect_def autoScrollCleanup_def progressEffect_def
  mount_def setIsVisible_def

lemma settled_initial: "settled (initial c)"
  by (simp add: settled_def initial_def)

lemma settled_handle: "settled s \<Longrightarrow> settled (handle c e s)"
  by (cases e) (auto simp: settled_def callback_defs Let_def split: option.splits)

lemma reachable_settled: "reachable c s \<Longrightarrow> settled s"
  by (induction rule: reachable.induct) (simp_all add: settled_initial settled_handle)

lemma reachable_run: "reachable c s \<Longrightarrow> reachable c (run c es s)"
  by (induction es arbitrary: s) (auto intro: reachable.intros)

lemma reachable_run_initial: "reachable c (run c es (initial c))"
  by (rule reachable_run) (rule reachable_initial)

lemma reachable_atTwo: "reachable cfgLoop5 atTwo"
  unfolding atTwo_def by (rule reachable_run_initial)

lemma reachable_hiddenAtTwo: "reachable cfgLoop5 hiddenAtTwo"
  unfolding hiddenAtTwo_def by (rule reachable_run_initial)

lemma reachable_atLast: "reachable cfgNoLoop5 atLast"
  unfolding atLast_def by (rule reachable_run_initial)

lemma indexState_progressEffect: "indexState (progressEffect c s) = indexState s"
  by (simp add: progressEffect_def)

lemma indexState_startSlideProgress: "indexState (startSlideProgress c s) = indexState s"
  by (simp add: startSlideProgress_def)

lemma goToSlide_current: "x \<noteq> NaN \<Longrightarrow> currentSlideRef s = x \<Longrightarrow> goToSlide c x s = s"
  by (simp add: goToSlide_def js_seq_def)

lemma reachable_shownTicked: "reachable cfgShort shownTicked"
  unfolding shownTicked_def by (rule reachable_run_initial)

lemma Math_min_succ: "x \<noteq> NaN \<Longrightarrow> Math_min (js_add x (Fin 1)) x = x"
  by (cases x) (simp_all add: Math_min_def)

text \<open>The slide-progress interval runs only under \<open>autoScroll\<close> and a speed that
  is not \<open><= 0\<close>: only \<open>startSlideProgress\<close> sets it.\<close>

lemma slide_timer_handle:
  "slideProgressIntervalRef s = None \<or> (autoScroll c \<and> \<not> js_le (speed c) (Fin 0)) \<Longrightarrow>
   slideProgressIntervalRef (handle c e s) = None \<or>
     (autoScroll c \<and> \<not> js_le (speed c) (Fin 0))"
  by (cases e) (auto simp: callback_defs Let_def split: option.splits if_splits)

lemma slide_timer_needs_autoScroll:
  "reachable c s \<Longrightarrow>
   slideProgressIntervalRef s = None \<or> (autoScroll c \<and> \<not> js_le (speed c) (Fin 0))"
  by (induction rule: reachable.induct) (simp_all add: initial_def slide_timer_handle)

text \<open>The cleanup at unmount cancels both intervals.\<close>

lemma unmount_cancels:
  "slideProgressIntervalRef (unmount s) = None \<and> loopProgressIntervalRef (unmount s) = None"
  by (simp add: unmount_def autoScrollCleanup_def)

section \<open>Index bounds\<close>

text \<open>
  C1 states that \<open>currentSlide\<close>, \<open>prevIndex\<close> and \<open>nextIndex\<close> lie in
  \<open>[0, totalSlides - 1]\<close> in every reachable state with \<open>totalSlides > 0\<close>, also
  after \<open>goToSlide\<close> with a negative index.  The code leaves the range: on a looping
  slider of five slides \<open>goToSlide(-1)\<close> makes \<open>-1\<close> the current slide, since \<open>%\<close>
  keeps the sign of the index (\<open>prevSlide\<close> adds \<open>totalSlides\<close> before \<open>%\<close>;
  \<open>goToSlide\<close> does not); and a slider of one slide starts with \<open>nextIndex = 1\<close>
  while \<open>totalSlides - 1 = 0\<close>.
\<close>

theorem C1_index_out_of_range:
  "currentSlide (indexState (run cfgLoop5 [Mount, GoToSlide (- 1)] (initial cfgLoop5)))
     = Fin (- 1)
   \<and> js_lt (Fin (- 1)) (Fin 0)
   \<and> nextIndex (indexState (initial cfgSingle)) = Fin 1
   \<and> js_sub (totalSlides cfgSingle) (Fin 1) = Fin 0"
  by code_simp

section \<open>The previous and the next index\<close>

text \<open>
  C2 as stated (after every navigation \<open>prevIndex\<close> is recomputed from the new current
  slide, never set to the previously current slide) fails: from slide 2 of a looping
  slider of five slides, \<open>prevSlide\<close> moves to slide 1 and sets \<open>prevIndex\<close> to 2,
  the slide just left, while the index recomputed from slide 1 is 0.
\<close>

theorem C2_counterexample:
  "prevIndex (indexState (handle cfgLoop5 PrevSlide atTwo)) = Fin 2 \<and>
   currentSlide (indexState (handle cfgLoop5 PrevSlide atTwo)) = Fin 1 \<and>
   defaultPrevIndex cfgLoop5 (Fin 1) = Fin 0 \<and>
   prevIndex (indexState (handle cfgLoop5 PrevSlide atTwo)) \<noteq>
     defaultPrevIndex cfgLoop5 (currentSlide (indexState (handle cfgLoop5 PrevSlide atTwo)))"
  by code_simp

lemma nextSlide_indexes:
  "indexState (nextSlide c s) = indexState s \<or>
   (prevIndex (indexState (nextSlide c s)) = currentSlideRef s \<and>
    nextIndex (indexState (nextSlide c s)) =
      computedNextIndex c (currentSlide (indexState (nextSlide c s))))"
  by (simp add: nextSlide_def Let_def indexState_startSlideProgress updateIndexes_def)

lemma prevSlide_indexes:
  "prevIndex (indexState (prevSlide c s)) = currentSlideRef s \<and>
   nextIndex (indexState (prevSlide c s)) =
     computedNextIndex c (currentSlide (indexState (prevSlide c s)))"
  by (simp add: prevSlide_def Let_def indexState_startSlideProgress updateIndexes_def)

lemma goToSlide_indexes:
  "indexState (goToSlide c i s) = indexState s \<or>
   (prevIndex (indexState (goToSlide c i s)) = currentSlideRef s \<and>
    nextIndex (indexState (goToSlide c i s)) =
      computedNextIndex c (currentSlide (indexState (goToSlide c i s))))"
  by (simp add: goToSlide_def Let_def indexState_startSlideProgress updateIndexes_def
      handleLoopProgress_def)

text \<open>
  C2 as amended: a navigation operation (\<open>nextSlide\<close>, \<open>prevSlide\<close>, \<open>goToSlide\<close>)
  either leaves the index state as it is, or sets \<open>nextIndex\<close> to the value computed
  from the new current slide, \<open>loop\<close> and \<open>totalSlides\<close>, and \<open>prevIndex\<close> to the
  slide that was current before the call.
\<close>

theorem C2_indexes_after_navigation:
  assumes "reachable c s" and "e \<in> {NextSlide, PrevSlide, GoToSlide i}"
  shows "indexState (handle c e s) = indexState s \<or>
         (prevIndex (indexState (handle c e s)) = currentSlide (indexState s) \<and>
          nextIndex (indexState (handle c e s)) =
            computedNextIndex c (currentSlide (indexState (handle c e s))))"
proof -
  from assms(1) have cur: "currentSlide (indexState s) = currentSlideRef s"
    using reachable_settled by (simp add: settled_def)
  from assms(2) consider "e = NextSlide" | "e = PrevSlide" | "e = GoToSlide i" by auto
  then show ?thesis
  proof cases
    case 1
    then show ?thesis
      using nextSlide_indexes [of c s] by (simp add: indexState_progressEffect cur)
  next
    case 2
    then show ?thesis
      using prevSlide_indexes [of c s] by (simp add: indexState_progressEffect cur)
  next
    case 3
    then show ?thesis
      using goToSlide_indexes [of c "Fin (of_int i)" s]
      by (simp add: indexState_progressEffect cur)
  qed
qed

text \<open>The amended C2 at \<open>prevSlide\<close> from slide 2 of five: the index state becomes
  current 1, previous 2, next 2.\<close>

theorem C2_indexes_after_navigation_witness:
  "reachable cfgLoop5 atTwo \<and>
   PrevSlide \<in> {NextSlide, PrevSlide, GoToSlide 0} \<and>
   (indexState (handle cfgLoop5 PrevSlide atTwo) = indexState atTwo \<or>
    (prevIndex (indexState (handle cfgLoop5 PrevSlide atTwo)) = currentSlide (indexState atTwo) \<and>
     nextIndex (indexState (handle cfgLoop5 PrevSlide atTwo)) =
       computedNextIndex cfgLoop5
         (currentSlide (indexState (handle cfgLoop5 PrevSlide atTwo))))) \<and>
   indexState atTwo = \<lparr>currentSlide = Fin 2, prevIndex = Fin 0, nextIndex = Fin 3\<rparr> \<and>
   indexState (handle cfgLoop5 PrevSlide atTwo) =
     \<lparr>currentSlide = Fin 1, prevIndex = Fin 2, nextIndex = Fin 2\<rparr>"
proof -
  have m: "PrevSlide \<in> {NextSlide, PrevSlide, GoToSlide 0}" by simp
  have v1: "indexState atTwo = \<lparr>currentSlide = Fin 2, prevIndex = Fin 0, nextIndex = Fin 3\<rparr>"
    by code_simp
  have v2: "indexState (handle cfgLoop5 PrevSlide atTwo) =
     \<lparr>currentSlide = Fin 1, prevIndex = Fin 2, nextIndex = Fin 2\<rparr>"
    by code_simp
  show ?thesis
    using reachable_atTwo m C2_indexes_after_navigation [OF reachable_atTwo m] v1 v2
    by blast
qed

section \<open>Progress of a slider of at most one slide\<close>

text \<open>
  C3 states that with \<open>totalSlides \<le> 1\<close> the progress calculations avoid the division
  by zero and give a fixed number.  The code divides: with one slide
  \<open>calculateBulletProgress\<close> computes \<open>0 / 0 * 100\<close>, which is NaN, and the mounted
  slider exposes it as \<open>bulletProgress\<close>; with no slide \<open>totalProgress\<close> is
  \<open>1 / 0 * 100\<close>, which is Infinity.
\<close>

theorem C3_progress_undefined:
  "calculateBulletProgress (Fin 1) (Fin 0) = NaN \<and>
   bulletProgress (mount cfgSingle (initial cfgSingle)) = NaN \<and>
   totalProgress (mount cfgEmpty (initial cfgEmpty)) = PInf"
  by code_simp

section \<open>Becoming visible\<close>

text \<open>
  C4 as stated (when the slider becomes visible the loop-progress interval restarts
  seeded at \<open>currentSlide * speed\<close>) fails: a looping slider of five slides with
  \<open>speed = 3000\<close>, hidden on slide 2, restarts its loop-progress interval at 0 and
  not at 6000 when it is shown again.
\<close>

theorem C4_counterexample:
  "\<not> isVisible hiddenAtTwo \<and>
   currentSlide (indexState hiddenAtTwo) = Fin 2 \<and>
   js_mul (currentSlide (indexState hiddenAtTwo)) (speed cfgLoop5) = Fin 6000 \<and>
   loopProgressIntervalRef (setIsVisible cfgLoop5 True hiddenAtTwo) = Some (Fin 0) \<and>
   loopProgressIntervalRef (setIsVisible cfgLoop5 True hiddenAtTwo) \<noteq>
     Some (js_mul (currentSlide (indexState hiddenAtTwo)) (speed cfgLoop5))"
  by code_simp

lemma goToTarget_NaN: "goToTarget c NaN = NaN"
  by (simp add: goToTarget_def Math_min_def Math_max_def)

lemma js_gt_not_le: "js_gt x (Fin 0) \<Longrightarrow> \<not> js_le x (Fin 0)"
  by (cases x) (auto simp: js_gt_def js_le_def js_seq_def)

lemma goToSlide_own_slide:
  "isVisible (goToSlide c (currentSlideRef s) s) = isVisible s \<and>
   isInitialized (goToSlide c (currentSlideRef s) s) = isInitialized s \<and>
   currentSlide (indexState (goToSlide c (currentSlideRef s) s)) =
     (if currentSlideRef s = NaN then NaN else currentSlide (indexState s)) \<and>
   (currentSlideRef s \<noteq> NaN \<longrightarrow> indexState (goToSlide c (currentSlideRef s) s) = indexState s)"
  by (simp add: goToSlide_def js_seq_def Let_def startSlideProgress_def handleLoopProgress_def
      updateIndexes_def goToTarget_NaN)

lemma autoScrollEffect_restarts:
  assumes "autoScroll c" and "isInitialized s" and "isVisible s"
  shows "indexState (autoScrollEffect c s) = indexState s \<and>
         isVisible (autoScrollEffect c s) \<and>
         slideProgressIntervalRef (autoScrollEffect c s) =
           (if js_gt (speed c) (Fin 0) then Some (Fin 0) else None) \<and>
         loopProgressIntervalRef (autoScrollEffect c s) =
           (if js_gt (speed c) (Fin 0) then Some (Fin 0) else None)"
  using assms js_gt_not_le [of "speed c"]
  by (simp add: autoScrollEffect_def startSlideProgress_def handleLoopProgress_def)

text \<open>
  C4 as amended: when a mounted, hidden slider with \<open>autoScroll\<close> becomes visible,
  both intervals are restarted from zero when \<open>speed > 0\<close> and left cancelled
  otherwise, so the loop-progress interval is seeded at 0 and not at
  \<open>currentSlide * speed\<close>; \<open>currentSlide\<close> is unchanged; and \<open>prevIndex\<close> and
  \<open>nextIndex\<close> are unchanged too whenever \<open>currentSlide\<close> is a number (not NaN).
\<close>

theorem C4_visibility_restored:
  assumes "reachable c s" and "autoScroll c" and "isInitialized s" and "\<not> isVisible s"
  shows "isVisible (setIsVisible c True s) \<and>
         currentSlide (indexState (setIsVisible c True s)) = currentSlide (indexState s) \<and>
         (currentSlide (indexState s) \<noteq> NaN \<longrightarrow>
            indexState (setIsVisible c True s) = indexState s) \<and>
         slideProgressIntervalRef (setIsVisible c True s) =
           (if js_gt (speed c) (Fin 0) then Some (Fin 0) else None) \<and>
         loopProgressIntervalRef (setIsVisible c True s) =
           (if js_gt (speed c) (Fin 0) then Some (Fin 0) else None)"
proof -
  let ?s1 = "autoScrollCleanup (s\<lparr>isVisible := True\<rparr>)"
  let ?s2 = "goToSlide c (currentSlideRef ?s1) ?s1"
  from assms(1) have cur: "currentSlide (indexState s) = currentSlideRef s"
    using reachable_settled by (simp add: settled_def)
  have s1: "isVisible ?s1" "isInitialized ?s1" "indexState ?s1 = indexState s"
    "currentSlideRef ?s1 = currentSlideRef s"
    using assms(3) by (simp_all add: autoScrollCleanup_def)
  have e: "setIsVisible c True s = autoScrollEffect c ?s2"
    using assms(2,4) s1(1) by (simp add: setIsVisible_def visibilityEffect_def)
  have s2: "isVisible ?s2" "isInitialized ?s2"
    "currentSlide (indexState ?s2) = currentSlide (indexState s)"
    "currentSlide (indexState s) \<noteq> NaN \<longrightarrow> indexState ?s2 = indexState s"
    using goToSlide_own_slide [of c ?s1] s1 cur by (simp_all split: if_splits)
  show ?thesis
    using autoScrollEffect_restarts [OF assms(2) s2(2) s2(1)] s2(3,4)
    by (simp add: e)
qed

text \<open>The amended C4 at the slider hidden on slide 2.\<close>

theorem C4_visibility_restored_witness:
  "reachable cfgLoop5 hiddenAtTwo \<and>
   autoScroll cfgLoop5 \<and> isInitialized hiddenAtTwo \<and> \<not> isVisible hiddenAtTwo \<and>
   currentSlide (indexState hiddenAtTwo) = Fin 2 \<and>
   js_gt (speed cfgLoop5) (Fin 0) \<and>
   isVisible (setIsVisible cfgLoop5 True hiddenAtTwo) \<and>
   currentSlide (indexState (setIsVisible cfgLoop5 True hiddenAtTwo)) = Fin 2 \<and>
   indexState (setIsVisible cfgLoop5 True hiddenAtTwo) = indexState hiddenAtTwo \<and>
   slideProgressIntervalRef (setIsVisible cfgLoop5 True hiddenAtTwo) = Some (Fin 0) \<and>
   loopProgressIntervalRef (setIsVisible cfgLoop5 True hiddenAtTwo) = Some (Fin 0)"
proof -
  have h2: "autoScroll cfgLoop5" by code_simp
  have h3: "isInitialized hiddenAtTwo" by code_simp
  have h4: "\<not> isVisible hiddenAtTwo" by code_simp
  have v: "currentSlide (indexState hiddenAtTwo) = Fin 2" by code_simp
  have sp: "js_gt (speed cfgLoop5) (Fin 0)" by code_simp
  show ?thesis
    using C4_visibility_restored [OF reachable_hiddenAtTwo h2 h3 h4]
      reachable_hiddenAtTwo h2 h3 h4 v sp
    by simp
qed

text \<open>
  The condition on \<open>currentSlide\<close> is needed: with the default \<open>totalSlides = 0\<close> the
  first automatic advance makes the current slide \<open>1 % 0\<close>, which is NaN; when that
  slider is hidden and shown again, \<open>goToSlide(NaN)\<close> passes the guard of
  \<open>goToSlide\<close> and \<open>prevIndex\<close> goes from 0 to NaN.
\<close>

lemma visibility_restored_at_NaN:
  "currentSlide (indexState hiddenAtNaN) = NaN \<and>
   prevIndex (indexState hiddenAtNaN) = Fin 0 \<and>
   currentSlide (indexState (setIsVisible cfgDefault True hiddenAtNaN)) = NaN \<and>
   prevIndex (indexState (setIsVisible cfgDefault True hiddenAtNaN)) = NaN \<and>
   loopProgressIntervalRef (setIsVisible cfgDefault True hiddenAtNaN) = Some (Fin 0)"
  by code_simp

section \<open>The direction of \<open>goToSlide\<close>\<close>

text \<open>
  C5 as stated (the direction of \<open>goToSlide(index)\<close> compares the index as passed in,
  before it is wrapped or clamped, with the current slide) fails: on slide 2 of a
  looping slider of five slides, \<open>goToSlide(6)\<close> passes an index greater than the
  current slide and sets the direction to \<open>prev\<close>, since the wrapped target is 1.
\<close>

theorem C5_counterexample:
  "js_gt (Fin 6) (currentSlide (indexState atTwo)) \<and>
   \<not> js_seq (Fin 6) (currentSlide (indexState atTwo)) \<and>
   direction (handle cfgLoop5 (GoToSlide 6) atTwo) = Prev \<and>
   direction (handle cfgLoop5 (GoToSlide 6) atTwo) \<noteq>
     (if js_gt (Fin 6) (currentSlide (indexState atTwo)) then Next else Prev)"
  by code_simp

lemma direction_goToSlide:
  "\<not> js_seq i (currentSlideRef s) \<Longrightarrow>
   direction (goToSlide c i s) =
     (if js_gt (goToTarget c i) (currentSlideRef s) then Next else Prev)"
  by (simp add: goToSlide_def Let_def startSlideProgress_def handleLoopProgress_def
      updateIndexes_def)

text \<open>
  C5 as amended: for every call \<open>goToSlide(index)\<close> with an index other than the
  current slide, the direction is \<open>next\<close> if the target after it is wrapped (looping)
  or clamped (non-looping) is greater than the current slide, and \<open>prev\<close> otherwise.
\<close>

theorem C5_direction_of_goToSlide:
  assumes "reachable c s"
    and "\<not> js_seq (Fin (of_int i)) (currentSlide (indexState s))"
  shows "direction (handle c (GoToSlide i) s) =
           (if js_gt (goToTarget c (Fin (of_int i))) (currentSlide (indexState s))
            then Next else Prev)"
proof -
  from assms(1) have cur: "currentSlide (indexState s) = currentSlideRef s"
    using reachable_settled by (simp add: settled_def)
  have "direction (handle c (GoToSlide i) s) = direction (goToSlide c (Fin (of_int i)) s)"
    by (simp add: progressEffect_def)
  then show ?thesis
    using assms(2) by (simp add: cur direction_goToSlide)
qed

text \<open>The amended C5 at \<open>goToSlide(6)\<close> on slide 2 of five: the target is 1, the
  direction \<open>prev\<close>.\<close>

theorem C5_direction_of_goToSlide_witness:
  "reachable cfgLoop5 atTwo \<and>
   \<not> js_seq (Fin (of_int 6)) (currentSlide (indexState atTwo)) \<and>
   goToTarget cfgLoop5 (Fin (of_int 6)) = Fin 1 \<and>
   \<not> js_gt (Fin 1) (currentSlide (indexState atTwo)) \<and>
   direction (handle cfgLoop5 (GoToSlide 6) atTwo) = Prev"
proof -
  have h: "\<not> js_seq (Fin (of_int 6)) (currentSlide (indexState atTwo))" by code_simp
  have t: "goToTarget cfgLoop5 (Fin (of_int 6)) = Fin 1" by code_simp
  have g: "\<not> js_gt (Fin 1) (currentSlide (indexState atTwo))" by code_simp
  show ?thesis
    using C5_direction_of_goToSlide [OF reachable_atTwo h] reachable_atTwo h t g
    by simp
qed

section \<open>Navigation before the first effects\<close>

text \<open>
  C6 states that before the hook is initialized every navigation attempt is ignored.
  Only \<open>nextSlide\<close> tests \<open>isInitialized\<close>: in the state of the first render of a
  looping slider of five slides, \<open>nextSlide\<close> changes nothing, while \<open>prevSlide\<close>
  moves to slide 4, sets the direction and starts the slide-progress interval, and
  \<open>goToSlide(2)\<close> moves to slide 2 and starts the loop-progress interval.
\<close>

theorem C6_navigation_before_initialization:
  "\<not> isInitialized (initial cfgLoop5) \<and>
   nextSlide cfgLoop5 (initial cfgLoop5) = initial cfgLoop5 \<and>
   currentSlide (indexState (initial cfgLoop5)) = Fin 0 \<and>
   direction (initial cfgLoop5) = Next \<and>
   currentSlide (indexState (prevSlide cfgLoop5 (initial cfgLoop5))) = Fin 4 \<and>
   direction (prevSlide cfgLoop5 (initial cfgLoop5)) = Prev \<and>
   slideProgressIntervalRef (prevSlide cfgLoop5 (initial cfgLoop5)) = Some (Fin 0) \<and>
   currentSlide (indexState (goToSlide cfgLoop5 (Fin 2) (initial cfgLoop5))) = Fin 2 \<and>
   loopProgressIntervalRef (goToSlide cfgLoop5 (Fin 2) (initial cfgLoop5)) = Some (Fin 6000)"
  by code_simp

section \<open>The slide-progress interval of a hidden slider\<close>

text \<open>
  C7 states that the slide-progress interval never runs while \<open>isVisible\<close> is false.
  \<open>startSlideProgress\<close> and \<open>goToSlide\<close> test \<open>autoScroll\<close> and \<open>speed\<close> only: a
  mounted slider that was never shown starts the interval on \<open>goToSlide(2)\<close>, and
  after thirty firings it has advanced to slide 3, still hidden, with the interval
  running again.
\<close>

theorem C7_slide_timer_while_hidden:
  "autoScroll cfgLoop5 \<and> \<not> isVisible atTwo \<and>
   slideProgressIntervalRef atTwo = Some (Fin 0) \<and>
   \<not> isVisible (run cfgLoop5 (replicate 30 SlideTick) atTwo) \<and>
   currentSlide (indexState (run cfgLoop5 (replicate 30 SlideTick) atTwo)) = Fin 3 \<and>
   slideProgressIntervalRef (run cfgLoop5 (replicate 30 SlideTick) atTwo) = Some (Fin 0)"
  by code_simp

section \<open>\<open>nextSlide\<close> on the last slide of a non-looping slider\<close>

text \<open>
  C8: with \<open>loop = false\<close> and the current slide equal to \<open>totalSlides - 1\<close>, a call of
  \<open>nextSlide\<close> on the initialized hook leaves \<open>currentSlide\<close>, \<open>prevIndex\<close> and
  \<open>nextIndex\<close> as they are, cancels the slide-progress interval and sets
  \<open>slideTimeProgress\<close> to 100.  The model of \<open>nextSlide\<close> is a total function: no
  branch of it raises.
\<close>

theorem C8_nextSlide_at_last_slide:
  assumes "reachable c s" and "isInitialized s" and "\<not> loop c"
    and "js_seq (currentSlide (indexState s)) (js_sub (totalSlides c) (Fin 1))"
  shows "indexState (nextSlide c s) = indexState s \<and>
         currentSlideRef (nextSlide c s) = currentSlideRef s \<and>
         slideProgressIntervalRef (nextSlide c s) = None \<and>
         slideTimeProgress (nextSlide c s) = Fin 100"
proof -
  from assms(1) have st: "\<not> isAnimating s" "currentSlide (indexState s) = currentSlideRef s"
    using reachable_settled by (simp_all add: settled_def)
  from assms(4) st(2) have n: "currentSlideRef s \<noteq> NaN"
    and l: "js_sub (totalSlides c) (Fin 1) = currentSlideRef s"
    by (auto simp: js_seq_def)
  have "js_seq (Math_min (js_add (currentSlideRef s) (Fin 1)) (js_sub (totalSlides c) (Fin 1)))
          (currentSlideRef s)"
    using n by (simp add: l Math_min_succ js_seq_def)
  then show ?thesis
    using assms(2,3) st(1) by (simp add: nextSlide_def Let_def)
qed

text \<open>C8 on slide 4 of a non-looping slider of five slides, its slide-progress
  interval running.\<close>

theorem C8_nextSlide_at_last_slide_witness:
  "reachable cfgNoLoop5 atLast \<and> isInitialized atLast \<and> \<not> loop cfgNoLoop5 \<and>
   js_seq (currentSlide (indexState atLast)) (js_sub (totalSlides cfgNoLoop5) (Fin 1)) \<and>
   currentSlide (indexState atLast) = Fin 4 \<and>
   slideProgressIntervalRef atLast = Some (Fin 0) \<and>
   indexState (nextSlide cfgNoLoop5 atLast) = indexState atLast \<and>
   currentSlideRef (nextSlide cfgNoLoop5 atLast) = currentSlideRef atLast \<and>
   slideProgressIntervalRef (nextSlide cfgNoLoop5 atLast) = None \<and>
   slideTimeProgress (nextSlide cfgNoLoop5 atLast) = Fin 100"
proof -
  have h2: "isInitialized atLast" by code_simp
  have h3: "\<not> loop cfgNoLoop5" by code_simp
  have h4: "js_seq (currentSlide (indexState atLast)) (js_sub (totalSlides cfgNoLoop5) (Fin 1))"
    by code_simp
  have v: "currentSlide (indexState atLast) = Fin 4" by code_simp
  have t: "slideProgressIntervalRef atLast = Some (Fin 0)" by code_simp
  show ?thesis
    using C8_nextSlide_at_last_slide [OF reachable_atLast h2 h3 h4] reachable_atLast h2 h3 h4 v t
    by simp
qed

section \<open>The range of \<open>loopProgress\<close>\<close>

text \<open>
  C9 states that \<open>loopProgress\<close> never exceeds 100.  The interval callback publishes
  the progress before it tests it against 100: with \<open>speed = 320\<close> and two slides
  the cycle lasts 640, and the seventh firing publishes \<open>700 / 640 * 100 = 109.375\<close>.
\<close>

theorem C9_loop_progress_above_100:
  "loopProgress
     (run cfgShort (Mount # Visibility True # replicate 7 LoopTick) (initial cfgShort))
     = Fin (875 / 8) \<and>
   js_gt (Fin (875 / 8)) (Fin 100)"
  by code_simp

section \<open>Manual navigation and the loop-progress interval\<close>

lemma loop_nextSlide:
  "loopProgressIntervalRef (nextSlide c s) = loopProgressIntervalRef s \<and>
   loopProgress (nextSlide c s) = loopProgress s"
  by (simp add: nextSlide_def Let_def startSlideProgress_def updateIndexes_def)

lemma loop_prevSlide:
  "loopProgressIntervalRef (prevSlide c s) = loopProgressIntervalRef s \<and>
   loopProgress (prevSlide c s) = loopProgress s"
  by (simp add: prevSlide_def Let_def startSlideProgress_def updateIndexes_def)

lemma loopProgressTick_frame:
  assumes "loopProgressIntervalRef s' = loopProgressIntervalRef s"
    and "loopProgress s' = loopProgress s"
  shows "loopProgressIntervalRef (loopProgressTick c s') =
           loopProgressIntervalRef (loopProgressTick c s) \<and>
         loopProgress (loopProgressTick c s') = loopProgress (loopProgressTick c s)"
  using assms by (simp add: loopProgressTick_def Let_def split: option.splits)

lemma loopProgressTick_running:
  assumes "loopProgressIntervalRef s = Some t"
  shows "loopProgress (loopProgressTick c s) =
           js_mul (js_div (js_add t (Fin 100)) (js_mul (speed c) (totalSlides c))) (Fin 100) \<and>
         loopProgressIntervalRef (loopProgressTick c s) =
           Some (if js_ge (js_mul (js_div (js_add t (Fin 100)) (js_mul (speed c) (totalSlides c)))
                            (Fin 100)) (Fin 100)
                 then Fin 0 else js_add t (Fin 100))"
  using assms by (simp add: loopProgressTick_def Let_def)

lemma slide_prevSlide:
  "slideProgressIntervalRef (prevSlide c s) =
     (if \<not> autoScroll c \<or> js_le (speed c) (Fin 0) then slideProgressIntervalRef s
      else Some (Fin 0))"
  by (simp add: prevSlide_def Let_def startSlideProgress_def updateIndexes_def)

lemma slide_nextSlide:
  "slideProgressIntervalRef (nextSlide c s) =
     (if isAnimating s \<or> \<not> isInitialized s then slideProgressIntervalRef s
      else if \<not> loop c \<and>
              js_seq (Math_min (js_add (currentSlideRef s) (Fin 1))
                               (js_sub (totalSlides c) (Fin 1)))
                     (currentSlideRef s)
      then None
      else if \<not> autoScroll c \<or> js_le (speed c) (Fin 0) then slideProgressIntervalRef s
      else Some (Fin 0))"
  by (simp add: nextSlide_def Let_def startSlideProgress_def updateIndexes_def)

lemma loop_goToSlide:
  "\<not> js_seq i (currentSlideRef s) \<Longrightarrow> autoScroll c \<Longrightarrow> js_gt (speed c) (Fin 0) \<Longrightarrow>
   loopProgressIntervalRef (goToSlide c i s) = Some (js_mul (goToTarget c i) (speed c))"
  by (simp add: goToSlide_def Let_def startSlideProgress_def handleLoopProgress_def
      updateIndexes_def)

text \<open>
  C10: \<open>nextSlide\<close> and \<open>prevSlide\<close> neither cancel, restart nor reseed the
  loop-progress interval, and leave \<open>loopProgress\<close> as it is, so the next firing of
  the interval publishes what it would have published without the navigation: the
  progress of its accumulator \<open>t\<close> plus one tick, not of \<open>currentSlide * speed\<close>.
  The only interval they touch is the slide-progress interval: \<open>prevSlide\<close> restarts
  it from zero (under \<open>autoScroll\<close> and a speed that is not \<open><= 0\<close>), and so does
  \<open>nextSlide\<close>, except where it returns at once (not initialized, or an advance in
  progress) or stops at the last slide of a non-looping slider, where it cancels it.
  \<open>goToSlide\<close> with an index other than the current slide, under \<open>autoScroll\<close> and
  \<open>speed > 0\<close>, reseeds the loop-progress interval with the target times \<open>speed\<close>.
\<close>

theorem C10_manual_navigation_keeps_loop_timer:
  "loopProgressIntervalRef (nextSlide c s) = loopProgressIntervalRef s \<and>
   loopProgress (nextSlide c s) = loopProgress s \<and>
   loopProgressIntervalRef (prevSlide c s) = loopProgressIntervalRef s \<and>
   loopProgress (prevSlide c s) = loopProgress s \<and>
   loopProgress (loopProgressTick c (nextSlide c s)) = loopProgress (loopProgressTick c s) \<and>
   loopProgress (loopProgressTick c (prevSlide c s)) = loopProgress (loopProgressTick c s) \<and>
   (loopProgressIntervalRef s = Some t \<longrightarrow>
      loopProgress (loopProgressTick c (nextSlide c s)) =
        js_mul (js_div (js_add t (Fin 100)) (js_mul (speed c) (totalSlides c))) (Fin 100) \<and>
      loopProgress (loopProgressTick c (prevSlide c s)) =
        js_mul (js_div (js_add t (Fin 100)) (js_mul (speed c) (totalSlides c))) (Fin 100)) \<and>
   slideProgressIntervalRef (prevSlide c s) =
     (if \<not> autoScroll c \<or> js_le (speed c) (Fin 0) then slideProgressIntervalRef s
      else Some (Fin 0)) \<and>
   slideProgressIntervalRef (nextSlide c s) =
     (if isAnimating s \<or> \<not> isInitialized s then slideProgressIntervalRef s
      else if \<not> loop c \<and>
              js_seq (Math_min (js_add (currentSlideRef s) (Fin 1))
                               (js_sub (totalSlides c) (Fin 1)))
                     (currentSlideRef s)
      then None
      else if \<not> autoScroll c \<or> js_le (speed c) (Fin 0) then slideProgressIntervalRef s
      else Some (Fin 0)) \<and>
   (\<not> js_seq i (currentSlideRef s) \<and> autoScroll c \<and> js_gt (speed c) (Fin 0) \<longrightarrow>
      loopProgressIntervalRef (goToSlide c i s) = Some (js_mul (goToTarget c i) (speed c)))"
proof -
  have n: "loopProgressIntervalRef (nextSlide c s) = loopProgressIntervalRef s"
    "loopProgress (nextSlide c s) = loopProgress s"
    using loop_nextSlide [of c s] by simp_all
  have p: "loopProgressIntervalRef (prevSlide c s) = loopProgressIntervalRef s"
    "loopProgress (prevSlide c s) = loopProgress s"
    using loop_prevSlide [of c s] by simp_all
  have tn: "loopProgress (loopProgressTick c (nextSlide c s)) = loopProgress (loopProgressTick c s)"
    using loopProgressTick_frame [OF n] by simp
  have tp: "loopProgress (loopProgressTick c (prevSlide c s)) = loopProgress (loopProgressTick c s)"
    using loopProgressTick_frame [OF p] by simp
  have r: "loopProgressIntervalRef s = Some t \<longrightarrow>
      loopProgress (loopProgressTick c s) =
        js_mul (js_div (js_add t (Fin 100)) (js_mul (speed c) (totalSlides c))) (Fin 100)"
    using loopProgressTick_running [of s t c] by simp
  have g: "\<not> js_seq i (currentSlideRef s) \<and> autoScroll c \<and> js_gt (speed c) (Fin 0) \<longrightarrow>
      loopProgressIntervalRef (goToSlide c i s) = Some (js_mul (goToTarget c i) (speed c))"
    using loop_goToSlide [of i s c] by simp
  show ?thesis
    using n p tn tp r g slide_prevSlide [of c s] slide_nextSlide [of c s]
    by (simp only:) simp
qed

text \<open>
  C10 on the shown slider of two slides (\<open>speed = 320\<close>) after two firings of the
  slide-progress interval and three of the loop-progress interval, their accumulators
  at 200 and 300: \<open>nextSlide\<close> and \<open>prevSlide\<close> restart the slide-progress interval
  at 0 and leave the loop accumulator at 300, not \<open>1 * 320\<close>; the next firing
  publishes \<open>400 / 640 * 100 = 62.5\<close>; \<open>goToSlide(1)\<close> reseeds the accumulator with
  320.
\<close>

theorem C10_manual_navigation_keeps_loop_timer_witness:
  "isInitialized shownTicked \<and> \<not> isAnimating shownTicked \<and> loop cfgShort \<and>
   autoScroll cfgShort \<and> js_gt (speed cfgShort) (Fin 0) \<and>
   currentSlide (indexState shownTicked) = Fin 0 \<and>
   slideProgressIntervalRef shownTicked = Some (Fin 200) \<and>
   loopProgressIntervalRef shownTicked = Some (Fin 300) \<and>
   slideProgressIntervalRef (nextSlide cfgShort shownTicked) = Some (Fin 0) \<and>
   slideProgressIntervalRef (prevSlide cfgShort shownTicked) = Some (Fin 0) \<and>
   loopProgressIntervalRef (nextSlide cfgShort shownTicked) = Some (Fin 300) \<and>
   loopProgressIntervalRef (prevSlide cfgShort shownTicked) = Some (Fin 300) \<and>
   currentSlide (indexState (nextSlide cfgShort shownTicked)) = Fin 1 \<and>
   js_mul (Fin 1) (speed cfgShort) = Fin 320 \<and>
   loopProgress (loopProgressTick cfgShort (nextSlide cfgShort shownTicked)) = Fin (125 / 2) \<and>
   loopProgress (loopProgressTick cfgShort (prevSlide cfgShort shownTicked)) = Fin (125 / 2) \<and>
   \<not> js_seq (Fin 1) (currentSlideRef shownTicked) \<and>
   loopProgressIntervalRef (goToSlide cfgShort (Fin 1) shownTicked) = Some (Fin 320)"
proof -
  have a: "isInitialized shownTicked" "\<not> isAnimating shownTicked" "loop cfgShort"
    "autoScroll cfgShort" "js_gt (speed cfgShort) (Fin 0)" "\<not> js_le (speed cfgShort) (Fin 0)"
    by code_simp+
  have b: "currentSlide (indexState shownTicked) = Fin 0"
    "slideProgressIntervalRef shownTicked = Some (Fin 200)"
    "loopProgressIntervalRef shownTicked = Some (Fin 300)"
    by code_simp+
  have n: "currentSlide (indexState (nextSlide cfgShort shownTicked)) = Fin 1" by code_simp
  have m: "js_mul (Fin 1) (speed cfgShort) = Fin 320" by code_simp
  have v: "js_mul (js_div (js_add (Fin 300) (Fin 100))
             (js_mul (speed cfgShort) (totalSlides cfgShort))) (Fin 100) = Fin (125 / 2)"
    by code_simp
  have w: "loopProgress (loopProgressTick cfgShort shownTicked) = Fin (125 / 2)" by code_simp
  have h: "\<not> js_seq (Fin 1) (currentSlideRef shownTicked)" by code_simp
  have t: "js_mul (goToTarget cfgShort (Fin 1)) (speed cfgShort) = Fin 320" by code_simp
  show ?thesis
    using C10_manual_navigation_keeps_loop_timer [of cfgShort shownTicked "Fin 300" "Fin 1"]
      a b n m v w h t
    by simp
qed

end
